theory Spec2Isabelle
  imports Main "HOL-Library.AList" "HOL-Library.Sublist"
begin

section \<open>Values of the worker\<close>

text \<open>
  The worker (\<^verbatim>\<open>worker.ts\<close>) is one scheduled task: it asks the platform for
  a report, lists the reports, or deletes them, through
  \<^verbatim>\<open>context.clients.platformHttp\<close>, and returns a message. The model follows
  the source function by function.

  \<^item> Request arguments are JavaScript object literals; they are kept as JSON values,
    objects as association lists in the order of their properties.
  \<^item> Response bodies are typed as the source types them (see \<open>response_data\<close>).
  \<^item> A call of the client resolves with a response or rejects with an \<^verbatim>\<open>Error\<close>;
    every \<^verbatim>\<open>throw\<close> of the worker throws an \<^verbatim>\<open>Error\<close> too.
  \<^item> The world threads through every function: the requests sent so far and the lines
    written to the console.
  \<^item> Strings are lists of 8-bit characters; all strings of the source are ASCII.
\<close>

datatype json =
    JStr string
  | JNum int
  | JArr "json list"
  | JObj "(string \<times> json) list"

text \<open>\<^verbatim>\<open>interface ScheduledEventResponse { message: string }\<close>\<close>

record ScheduledEventResponse =
  message :: string

text \<open>
  \<^verbatim>\<open>interface ReportDetail { id; status; name; progress }\<close>. The field names
  carry a prefix, since \<open>id\<close> is the identity function of HOL and \<open>status\<close> is also a
  field of the HTTP response.
\<close>

record ReportDetail =
  rd_id :: string
  rd_status :: string
  rd_name :: string
  rd_progress :: int

text \<open>
  The response of the client, read by the worker as \<^verbatim>\<open>res.status\<close>,
  \<^verbatim>\<open>res.data.report_id\<close> and \<^verbatim>\<open>res.data.reports\<close>. The body is typed as
  the source types it: \<open>report_id\<close> is the \<^verbatim>\<open>string\<close> that
  \<^verbatim>\<open>generateVulnerabilitiesReport\<close> returns, \<open>reports\<close> is a
  \<^verbatim>\<open>ReportDetail[]\<close>. The status is a whole number.
\<close>

record response_data =
  report_id :: string
  reports :: "ReportDetail list"

record response =
  status :: int
  data :: response_data

text \<open>
  A thrown value: an \<^verbatim>\<open>Error\<close> with its \<^verbatim>\<open>message\<close> and, when the client
  attached a response to it, the value of \<^verbatim>\<open>error.response?.status\<close>.
\<close>

record js_error =
  error_message :: string
  error_response_status :: "int option"

definition new_Error :: "string \<Rightarrow> js_error" where
  "new_Error msg = \<lparr>error_message = msg, error_response_status = None\<rparr>"

datatype http_method = POST | DELETE

text \<open>
  One call of the client: the method, the first argument (the endpoint) and the
  arguments that follow it, in the order the source writes them.
\<close>

record request =
  http_method :: http_method
  endpoint :: string
  arguments :: "json list"

datatype console_level = ConsoleLog | ConsoleWarn | ConsoleError

datatype console_arg = Text string | Reports "ReportDetail list"

text \<open>
  What a run leaves behind: the requests it sent and the lines it wrote to the console,
  both oldest first.
\<close>

record world =
  requests :: "request list"
  console :: "(console_level \<times> console_arg list) list"

text \<open>
  The platform client is the environment. Each call either resolves with a response
  (\<open>Inr\<close>) or rejects with an error (\<open>Inl\<close>); the answer may depend on the requests
  sent before.
\<close>

type_synonym platformHttp = "request list \<Rightarrow> request \<Rightarrow> js_error + response"

text \<open>The two constants at the top of \<^verbatim>\<open>worker.ts\<close>, as a configuration.\<close>

record config =
  reportType :: string
  cleanReports :: bool

definition source_config :: config where
  "source_config = \<lparr>reportType = ''violations'', cleanReports = False\<rparr>"

section \<open>Control flow: await, throw, try and catch\<close>

type_synonym 'a js = "world \<Rightarrow> (js_error + 'a) \<times> world"

definition js_return :: "'a \<Rightarrow> 'a js" where
  "js_return x w = (Inr x, w)"

definition js_throw :: "js_error \<Rightarrow> 'a js" where
  "js_throw e w = (Inl e, w)"

definition js_then :: "'a js \<Rightarrow> ('a \<Rightarrow> 'b js) \<Rightarrow> 'b js" where
  "js_then m f w = (case m w of (Inl e, w') \<Rightarrow> (Inl e, w') | (Inr x, w') \<Rightarrow> f x w')"

definition js_try :: "'a js \<Rightarrow> (js_error \<Rightarrow> 'a js) \<Rightarrow> 'a js" where
  "js_try m h w = (case m w of (Inl e, w') \<Rightarrow> h e w' | (Inr x, w') \<Rightarrow> (Inr x, w'))"

definition console_write :: "console_level \<Rightarrow> console_arg list \<Rightarrow> unit js" where
  "console_write l args w = (Inr (), w\<lparr>console := console w @ [(l, args)]\<rparr>)"

definition http :: "platformHttp \<Rightarrow> request \<Rightarrow> response js" where
  "http client req w = (client (requests w) req, w\<lparr>requests := requests w @ [req]\<rparr>)"

section \<open>Strings\<close>

definition digit :: "nat \<Rightarrow> char" where
  "digit d = ''0123456789'' ! d"

fun decimal :: "nat \<Rightarrow> string" where
  "decimal n = (if n < 10 then [digit n] else decimal (n div 10) @ [digit (n mod 10)])"

declare decimal.simps [simp del]

text \<open>A whole number inside a template literal.\<close>

definition toString :: "int \<Rightarrow> string" where
  "toString i = (if i < 0 then CHR ''-'' # decimal (nat (- i)) else decimal (nat i))"

text \<open>\<^verbatim>\<open>s.startsWith(p)\<close>\<close>

definition startsWith :: "string \<Rightarrow> string \<Rightarrow> bool" where
  "startsWith s p = (take (length p) s = p)"

text \<open>\<^verbatim>\<open>s.split('T')[0]\<close>: the part of \<open>s\<close> before its first \<open>T\<close>.\<close>

definition split_T_0 :: "string \<Rightarrow> string" where
  "split_T_0 s = takeWhile (\<lambda>c. c \<noteq> CHR ''T'') s"

text \<open>\<^verbatim>\<open>error.response?.status || "<none>"\<close>: a missing status and the status 0 are falsy.\<close>

definition status_or_none :: "js_error \<Rightarrow> string" where
  "status_or_none error =
     (case error_response_status error of
        None \<Rightarrow> ''<none>''
      | Some s \<Rightarrow> if s = 0 then ''<none>'' else toString s)"

section \<open>The functions of the worker\<close>

text \<open>
  \<^verbatim>\<open>generateReportName\<close>; the argument is what
  \<^verbatim>\<open>new Date().toISOString()\<close> gives at the time of the call.
\<close>

definition generateReportName :: "string \<Rightarrow> string" where
  "generateReportName isoNow = ''worker_xray_report_'' @ split_T_0 isoNow"

definition createReportPayload :: "string \<Rightarrow> (string \<times> json) list" where
  "createReportPayload reportName =
     [(''name'', JStr reportName),
      (''resources'', JObj
         [(''projects'', JObj
            [(''names'', JArr []),
             (''include_key_patterns'', JArr [JStr ''**'']),
             (''number_of_latest_versions'', JNum 5)])]),
      (''filters'', JObj
         [(''vulnerable_component'', JStr ''''),
          (''impacted_artifact'', JStr ''''),
          (''cve'', JStr ''''),
          (''issue_id'', JStr ''''),
          (''severities'', JArr [])])]"

definition content_type_headers :: json where
  "content_type_headers = JObj [(''Content-Type'', JStr ''application/json'')]"

definition vulnerabilities_request :: "(string \<times> json) list \<Rightarrow> request" where
  "vulnerabilities_request payload =
     \<lparr>http_method = POST,
      endpoint = ''/xray/api/v1/reports/vulnerabilities'',
      arguments = [JObj payload, JObj [(''headers'', content_type_headers)]]\<rparr>"

text \<open>
  The object spread \<^verbatim>\<open>{...payload, headers: {...}}\<close> keeps the properties of the
  payload in their order and sets \<open>headers\<close>, in place if the payload has one, at the end
  otherwise: that is \<^const>\<open>AList.update\<close>.
\<close>

definition violations_request :: "(string \<times> json) list \<Rightarrow> request" where
  "violations_request payload =
     \<lparr>http_method = POST,
      endpoint = ''/xray/api/v1/reports/violations'',
      arguments = [JObj (AList.update ''headers'' content_type_headers payload)]\<rparr>"

definition list_request :: request where
  "list_request =
     \<lparr>http_method = POST,
      endpoint = ''/xray/api/v1/reports?direction=desc&page_num=1&num_of_rows=10&order_by=start_time'',
      arguments = [JObj [(''headers'', content_type_headers)]]\<rparr>"

definition delete_request :: "string \<Rightarrow> request" where
  "delete_request reportId =
     \<lparr>http_method = DELETE,
      endpoint = ''/xray/api/v1/reports/'' @ reportId,
      arguments = [JObj [(''headers'', content_type_headers)]]\<rparr>"

definition request_failed_line :: "js_error \<Rightarrow> console_arg list" where
  "request_failed_line error =
     [Text (''Request failed with status '' @ status_or_none error @ '': '' @ error_message error)]"

definition non_200_line :: "int \<Rightarrow> console_arg list" where
  "non_200_line s = [Text (''Request succeeded but returned a non-200 status: '' @ toString s)]"

definition generateVulnerabilitiesReport ::
  "platformHttp \<Rightarrow> (string \<times> json) list \<Rightarrow> string \<Rightarrow> string js" where
  "generateVulnerabilitiesReport client payload reportName =
     js_try
       (js_then (http client (vulnerabilities_request payload)) (\<lambda>res.
          if status res = 200 \<or> status res < 400 then js_return (report_id (data res))
          else js_then (console_write ConsoleWarn (non_200_line (status res))) (\<lambda>_.
            js_throw (new_Error
              (''Failed to generate the vulnerabilities report: '' @ toString (status res))))))
       (\<lambda>error.
          js_then (console_write ConsoleError (request_failed_line error)) (\<lambda>_.
            js_throw (new_Error
              (''Failed to generate the vulnerabilities report: '' @ error_message error))))"

definition generateViolationsReport ::
  "platformHttp \<Rightarrow> (string \<times> json) list \<Rightarrow> string \<Rightarrow> string js" where
  "generateViolationsReport client payload reportName =
     js_try
       (js_then (http client (violations_request payload)) (\<lambda>res.
          if status res = 200 \<or> status res < 400 then js_return (report_id (data res))
          else js_then (console_write ConsoleWarn (non_200_line (status res))) (\<lambda>_.
            js_throw (new_Error
              (''Failed to generate the violations report: '' @ toString (status res))))))
       (\<lambda>error.
          js_then (console_write ConsoleError (request_failed_line error)) (\<lambda>_.
            js_throw (new_Error
              (''Failed to generate the violations report: '' @ error_message error))))"

record report_listing =
  reportIds :: "string list"
  reportNames :: "string list"

definition listReports :: "platformHttp \<Rightarrow> report_listing js" where
  "listReports client =
     js_try
       (js_then (http client list_request) (\<lambda>reportList.
          if status reportList = 200 \<or> status reportList < 400 then
            js_then (console_write ConsoleLog
                       [Text ''All Reports:'', Reports (reports (data reportList))]) (\<lambda>_.
            let filteredReports =
                  filter (\<lambda>report. startsWith (rd_name report) ''worker_xray_report_'')
                    (reports (data reportList))
            in js_then (console_write ConsoleLog
                          [Text ''Filtered Reports:'', Reports filteredReports]) (\<lambda>_.
               if length filteredReports = 0 then
                 js_then (console_write ConsoleWarn
                            [Text ''No reports found with the specified name pattern.'']) (\<lambda>_.
                   js_return \<lparr>reportIds = [], reportNames = []\<rparr>)
               else
                 js_return \<lparr>reportIds = map rd_id filteredReports,
                            reportNames = map rd_name filteredReports\<rparr>))
          else js_then (console_write ConsoleWarn (non_200_line (status reportList))) (\<lambda>_.
            js_throw (new_Error
              (''Failed to retrieve the reports: '' @ toString (status reportList))))))
       (\<lambda>error.
          js_then (console_write ConsoleError (request_failed_line error)) (\<lambda>_.
            js_throw (new_Error (''Failed to retrieve the reports: '' @ error_message error))))"

text \<open>The body of the \<^verbatim>\<open>for ... of\<close> loop of \<^verbatim>\<open>deleteReports\<close>, one identifier after the other.\<close>

fun delete_loop :: "platformHttp \<Rightarrow> string list \<Rightarrow> unit js" where
  "delete_loop client [] = js_return ()"
| "delete_loop client (reportId # rest) =
     js_then (http client (delete_request reportId)) (\<lambda>res.
       js_then
         (if status res = 200 \<or> status res < 400 then
            console_write ConsoleLog
              [Text (''Successfully deleted report with ID: '' @ reportId)]
          else
            console_write ConsoleWarn
              [Text (''Failed to delete report with ID: '' @ reportId @ '', status: ''
                     @ toString (status res))])
         (\<lambda>_. delete_loop client rest))"

definition deleteReports :: "platformHttp \<Rightarrow> string list \<Rightarrow> unit js" where
  "deleteReports client ids =
     js_try (delete_loop client ids)
       (\<lambda>error. console_write ConsoleError
          [Text (''Failed to delete reports: '' @ error_message error)])"

text \<open>
  The default export. In the second branch the \<^verbatim>\<open>try\<close> statement either
  returns from the function (in its \<^verbatim>\<open>catch\<close>) or falls through to the final
  \<^verbatim>\<open>return\<close>; the \<open>option\<close> says which.
\<close>

definition worker :: "config \<Rightarrow> platformHttp \<Rightarrow> string \<Rightarrow> ScheduledEventResponse js" where
  "worker cfg client isoNow =
     (if cleanReports cfg then
        js_try
          (js_then (listReports client) (\<lambda>listing.
             if length (reportIds listing) > 0 then
               js_then (deleteReports client (reportIds listing)) (\<lambda>_.
                 js_return \<lparr>message = ''Successfully deleted ''
                   @ toString (int (length (reportIds listing))) @ '' reports.''\<rparr>)
             else js_return \<lparr>message = ''No reports found to delete.''\<rparr>))
          (\<lambda>error. js_return \<lparr>message = error_message error\<rparr>)
      else
        let reportName = generateReportName isoNow;
            payload = createReportPayload reportName
        in js_then
             (js_try
                (js_then
                   (if reportType cfg = ''vulnerabilities'' then
                      generateVulnerabilitiesReport client payload reportName
                    else if reportType cfg = ''violations'' then
                      generateViolationsReport client payload reportName
                    else js_throw (new_Error (''Unknown report type: '' @ reportType cfg)))
                   (\<lambda>_. js_then (listReports client) (\<lambda>listing.
                      js_then
                        (if length (reportIds listing) > 0 then
                           console_write ConsoleLog
                             [Text (''Report created with name: '' @ reportName @ '' and ID: ''
                                    @ hd (reportIds listing))]
                         else
                           console_write ConsoleLog
                             [Text (''Report created with name: '' @ reportName
                                    @ '' but no report ID was found.'')])
                        (\<lambda>_. js_return None))))
                (\<lambda>error. js_return (Some \<lparr>message = error_message error\<rparr>)))
             (\<lambda>returned. case returned of
                Some r \<Rightarrow> js_return r
              | None \<Rightarrow> js_return \<lparr>message = ''Vulnerabilities report '' @ reportName
                          @ '' was successfully generated.''\<rparr>))"

section \<open>Sample platforms\<close>

text \<open>
  Concrete clients, configurations and a fresh world, on which the theorems below are
  run.
\<close>

definition report :: "string \<Rightarrow> string \<Rightarrow> ReportDetail" where
  "report i n = \<lparr>rd_id = i, rd_status = ''completed'', rd_name = n, rd_progress = 100\<rparr>"

definition sample_reports :: "ReportDetail list" where
  "sample_reports =
     [report ''a'' ''worker_xray_report_2025-01-03'',
      report ''x'' ''other_report'',
      report ''b'' ''worker_xray_report_2025-01-02'',
      report ''c'' ''worker_xray_report_2025-01-01'']"

definition answer :: "int \<Rightarrow> ReportDetail list \<Rightarrow> js_error + response" where
  "answer s rs = Inr \<lparr>status = s, data = \<lparr>report_id = ''R1'', reports = rs\<rparr>\<rparr>"

definition status_client :: "int \<Rightarrow> ReportDetail list \<Rightarrow> platformHttp" where
  "status_client s rs history req = answer s rs"

definition b_fails_client :: platformHttp where
  "b_fails_client history req =
     (if http_method req = DELETE \<and> endpoint req = ''/xray/api/v1/reports/b''
      then answer 404 [] else answer 200 sample_reports)"

definition b_rejects_client :: platformHttp where
  "b_rejects_client history req =
     (if http_method req = DELETE \<and> endpoint req = ''/xray/api/v1/reports/b''
      then Inl (new_Error ''socket hang up'') else answer 200 sample_reports)"

definition creation_fails_client :: platformHttp where
  "creation_fails_client history req =
     (if history = [] then answer 500 [] else answer 200 sample_reports)"

definition clean_config :: config where
  "clean_config = \<lparr>reportType = ''violations'', cleanReports = True\<rparr>"

definition vulnerabilities_config :: config where
  "vulnerabilities_config = \<lparr>reportType = ''vulnerabilities'', cleanReports = False\<rparr>"

definition start :: world where
  "start = \<lparr>requests = [], console = []\<rparr>"

section \<open>What each function does with the answer of the client\<close>

lemmas js_defs = js_return_def js_throw_def js_then_def js_try_def console_write_def http_def

lemma generateVulnerabilitiesReport_resolved:
  assumes "client (requests w) (vulnerabilities_request payload) = Inr res"
  shows "fst (generateVulnerabilitiesReport client payload reportName w) =
    (if status res < 400 then Inr (report_id (data res))
     else Inl (new_Error (''Failed to generate the vulnerabilities report: '' @
               ''Failed to generate the vulnerabilities report: '' @ toString (status res))))"
  using assms by (auto simp: generateVulnerabilitiesReport_def js_defs new_Error_def)

lemma generateVulnerabilitiesReport_rejected:
  assumes "client (requests w) (vulnerabilities_request payload) = Inl e"
  shows "fst (generateVulnerabilitiesReport client payload reportName w) =
       Inl (new_Error (''Failed to generate the vulnerabilities report: '' @ error_message e))"
  using assms by (auto simp: generateVulnerabilitiesReport_def js_defs new_Error_def)

lemma generateVulnerabilitiesReport_requests:
  "requests (snd (generateVulnerabilitiesReport client payload reportName w)) =
     requests w @ [vulnerabilities_request payload]"
  by (auto simp: generateVulnerabilitiesReport_def js_defs split: sum.splits)

lemma generateViolationsReport_resolved:
  assumes "client (requests w) (violations_request payload) = Inr res"
  shows "fst (generateViolationsReport client payload reportName w) =
    (if status res < 400 then Inr (report_id (data res))
     else Inl (new_Error (''Failed to generate the violations report: '' @
               ''Failed to generate the violations report: '' @ toString (status res))))"
  using assms by (auto simp: generateViolationsReport_def js_defs new_Error_def)

lemma generateViolationsReport_rejected:
  assumes "client (requests w) (violations_request payload) = Inl e"
  shows "fst (generateViolationsReport client payload reportName w) =
       Inl (new_Error (''Failed to generate the violations report: '' @ error_message e))"
  using assms by (auto simp: generateViolationsReport_def js_defs new_Error_def)

lemma generateViolationsReport_requests:
  "requests (snd (generateViolationsReport client payload reportName w)) =
     requests w @ [violations_request payload]"
  by (auto simp: generateViolationsReport_def js_defs split: sum.splits)

lemma startsWith_prefix: "startsWith s p = prefix p s"
  by (auto simp: startsWith_def prefix_def) (metis append_eq_conv_conj)

lemma listReports_resolved:
  assumes "client (requests w) list_request = Inr res"
  shows "fst (listReports client w) =
    (if status res < 400 then
       Inr \<lparr>reportIds = map rd_id
               (filter (\<lambda>r. prefix ''worker_xray_report_'' (rd_name r)) (reports (data res))),
            reportNames = map rd_name
               (filter (\<lambda>r. prefix ''worker_xray_report_'' (rd_name r)) (reports (data res)))\<rparr>
     else Inl (new_Error (''Failed to retrieve the reports: '' @
               ''Failed to retrieve the reports: '' @ toString (status res))))"
  using assms by (auto simp: listReports_def js_defs new_Error_def Let_def startsWith_prefix)

lemma listReports_rejected:
  assumes "client (requests w) list_request = Inl e"
  shows "fst (listReports client w) =
       Inl (new_Error (''Failed to retrieve the reports: '' @ error_message e))"
  using assms by (auto simp: listReports_def js_defs new_Error_def)

lemma listReports_requests:
  "requests (snd (listReports client w)) = requests w @ [list_request]"
  by (auto simp: listReports_def js_defs Let_def split: sum.splits)

subsection \<open>The delete loop\<close>

lemma delete_loop_step:
  assumes "client (requests w) (delete_request x) = Inr res"
  shows "delete_loop client (x # xs) w =
     delete_loop client xs
       (w\<lparr>requests := requests w @ [delete_request x],
          console := console w @
            [if status res < 400
             then (ConsoleLog, [Text (''Successfully deleted report with ID: '' @ x)])
             else (ConsoleWarn, [Text (''Failed to delete report with ID: '' @ x
                     @ '', status: '' @ toString (status res))])]\<rparr>)"
  using assms by (auto simp: js_defs simp del: append.simps)

lemma delete_loop_requests_prefix:
  "\<exists>n \<le> length ids. requests (snd (delete_loop client ids w)) =
       requests w @ map delete_request (take n ids)"
proof (induction ids arbitrary: w)
  case Nil
  show ?case by (simp add: js_defs)
next
  case (Cons x xs)
  show ?case
  proof (cases "client (requests w) (delete_request x)")
    case (Inl e)
    then have "requests (snd (delete_loop client (x # xs) w)) =
        requests w @ map delete_request (take 1 (x # xs))"
      by (simp add: js_defs)
    then show ?thesis by (intro exI[of _ 1]) simp
  next
    case (Inr res)
    define w1 where "w1 = snd (js_then (http client (delete_request x)) (\<lambda>res. 
         (if status res = 200 \<or> status res < 400 then
            console_write ConsoleLog
              [Text (''Successfully deleted report with ID: '' @ x)]
          else
            console_write ConsoleWarn
              [Text (''Failed to delete report with ID: '' @ x @ '', status: ''
                     @ toString (status res))])) w)"
    have w1: "requests w1 = requests w @ [delete_request x]"
      using Inr by (simp add: w1_def js_defs)
    have eq: "delete_loop client (x # xs) w = delete_loop client xs w1"
      using Inr by (simp add: w1_def js_defs)
    from Cons.IH[of w1] obtain n where "n \<le> length xs"
      "requests (snd (delete_loop client xs w1)) = requests w1 @ map delete_request (take n xs)"
      by blast
    then show ?thesis unfolding eq w1
      by (intro exI[of _ "Suc n"]) simp
  qed
qed

lemma delete_loop_all_resolved:
  assumes "\<forall>k<length ids. \<exists>res.
     client (requests w @ map delete_request (take k ids)) (delete_request (ids ! k)) = Inr res"
  shows "fst (delete_loop client ids w) = Inr () \<and>
     requests (snd (delete_loop client ids w)) = requests w @ map delete_request ids"
  using assms
proof (induction ids arbitrary: w)
  case Nil
  show ?case by (simp add: js_defs)
next
  case (Cons x xs)
  from Cons.prems[rule_format, of 0] obtain res
    where res: "client (requests w) (delete_request x) = Inr res" by auto
  define w1 where "w1 = w\<lparr>requests := requests w @ [delete_request x],
          console := console w @
            [if status res < 400
             then (ConsoleLog, [Text (''Successfully deleted report with ID: '' @ x)])
             else (ConsoleWarn, [Text (''Failed to delete report with ID: '' @ x
                     @ '', status: '' @ toString (status res))])]\<rparr>"
  have eq: "delete_loop client (x # xs) w = delete_loop client xs w1"
    unfolding w1_def using res by (rule delete_loop_step)
  have w1: "requests w1 = requests w @ [delete_request x]"
    by (simp add: w1_def)
  have "\<forall>k<length xs. \<exists>res.
     client (requests w1 @ map delete_request (take k xs)) (delete_request (xs ! k)) = Inr res"
  proof (intro allI impI)
    fix k assume "k < length xs"
    with Cons.prems[rule_format, of "Suc k"] show "\<exists>res.
     client (requests w1 @ map delete_request (take k xs)) (delete_request (xs ! k)) = Inr res"
      by (simp add: w1)
  qed
  from Cons.IH[OF this] show ?case by (simp only: eq w1) simp
qed

lemma delete_loop_rejected_at:
  assumes "k < length ids"
    and "\<forall>j<k. \<exists>res.
       client (requests w @ map delete_request (take j ids)) (delete_request (ids ! j)) = Inr res"
    and "client (requests w @ map delete_request (take k ids)) (delete_request (ids ! k)) = Inl e"
  shows "fst (delete_loop client ids w) = Inl e \<and>
     requests (snd (delete_loop client ids w)) =
       requests w @ map delete_request (take (Suc k) ids)"
  using assms
proof (induction ids arbitrary: w k)
  case Nil
  then show ?case by simp
next
  case (Cons x xs)
  show ?case
  proof (cases k)
    case 0
    with Cons.prems(3) have "client (requests w) (delete_request x) = Inl e" by simp
    then show ?thesis using 0 by (simp add: js_defs)
  next
    case (Suc k')
    from Cons.prems(2)[rule_format, of 0] Suc obtain res
      where res: "client (requests w) (delete_request x) = Inr res" by auto
    define w1 where "w1 = w\<lparr>requests := requests w @ [delete_request x],
          console := console w @
            [if status res < 400
             then (ConsoleLog, [Text (''Successfully deleted report with ID: '' @ x)])
             else (ConsoleWarn, [Text (''Failed to delete report with ID: '' @ x
                     @ '', status: '' @ toString (status res))])]\<rparr>"
    have eq: "delete_loop client (x # xs) w = delete_loop client xs w1"
      unfolding w1_def using res by (rule delete_loop_step)
    have w1: "requests w1 = requests w @ [delete_request x]"
      by (simp add: w1_def)
    have a: "k' < length xs" using Cons.prems(1) Suc by simp
    have b: "\<forall>j<k'. \<exists>res.
       client (requests w1 @ map delete_request (take j xs)) (delete_request (xs ! j)) = Inr res"
    proof (intro allI impI)
      fix j assume "j < k'"
      with Cons.prems(2)[rule_format, of "Suc j"] Suc show "\<exists>res.
       client (requests w1 @ map delete_request (take j xs)) (delete_request (xs ! j)) = Inr res"
        by (simp add: w1)
    qed
    have c: "client (requests w1 @ map delete_request (take k' xs)) (delete_request (xs ! k')) = Inl e"
      using Cons.prems(3) Suc by (simp add: w1)
    from Cons.IH[OF a b c] show ?thesis by (simp only: eq w1 Suc) simp
  qed
qed

lemma deleteReports_returns: "fst (deleteReports client ids w) = Inr ()"
  by (cases "delete_loop client ids w") (auto simp: deleteReports_def js_try_def console_write_def split: sum.splits)

lemma deleteReports_requests:
  "requests (snd (deleteReports client ids w)) = requests (snd (delete_loop client ids w))"
  by (cases "delete_loop client ids w") (auto simp: deleteReports_def js_try_def console_write_def split: sum.splits)

lemma deleteReports_rejected:
  assumes "fst (delete_loop client ids w) = Inl e"
  shows "console (snd (deleteReports client ids w)) =
     console (snd (delete_loop client ids w)) @
       [(ConsoleError, [Text (''Failed to delete reports: '' @ error_message e)])]"
  using assms
  by (cases "delete_loop client ids w")
     (simp add: deleteReports_def js_try_def console_write_def del: append.simps)

subsection \<open>The two branches of the orchestrator\<close>

lemma worker_clean:
  assumes "cleanReports cfg"
  shows "worker cfg client isoNow w =
    (case listReports client w of
       (Inl e, w1) \<Rightarrow> (Inr \<lparr>message = error_message e\<rparr>, w1)
     | (Inr listing, w1) \<Rightarrow>
         if reportIds listing = [] then (Inr \<lparr>message = ''No reports found to delete.''\<rparr>, w1)
         else (Inr \<lparr>message = ''Successfully deleted ''
                  @ toString (int (length (reportIds listing))) @ '' reports.''\<rparr>,
               snd (deleteReports client (reportIds listing) w1)))"
proof (cases "listReports client w")
  case (Pair r w1)
  show ?thesis
  proof (cases r)
    case (Inl e)
    with Pair assms show ?thesis
      by (simp add: worker_def js_try_def js_then_def js_return_def)
  next
    case (Inr listing)
    obtain u w2 where d: "deleteReports client (reportIds listing) w1 = (u, w2)"
      by (cases "deleteReports client (reportIds listing) w1")
    with deleteReports_returns[of client "reportIds listing" w1] have u: "u = Inr ()" by simp
    from Pair Inr assms d u show ?thesis
      by (simp add: worker_def js_try_def js_then_def js_return_def del: append.simps)
  qed
qed

lemma worker_generate:
  assumes "\<not> cleanReports cfg"
    and "reportType cfg = ''vulnerabilities'' \<and> gen = generateVulnerabilitiesReport \<or>
         reportType cfg = ''violations'' \<and> gen = generateViolationsReport"
  shows "worker cfg client isoNow w =
    (case gen client (createReportPayload (generateReportName isoNow)) (generateReportName isoNow) w of
       (Inl e, w1) \<Rightarrow> (Inr \<lparr>message = error_message e\<rparr>, w1)
     | (Inr created, w1) \<Rightarrow>
        (case listReports client w1 of
           (Inl e, w2) \<Rightarrow> (Inr \<lparr>message = error_message e\<rparr>, w2)
         | (Inr listing, w2) \<Rightarrow>
             (Inr \<lparr>message = ''Vulnerabilities report '' @ generateReportName isoNow
                      @ '' was successfully generated.''\<rparr>,
              w2\<lparr>console := console w2 @
                 [(ConsoleLog,
                   [Text (if reportIds listing = []
                          then ''Report created with name: '' @ generateReportName isoNow
                                 @ '' but no report ID was found.''
                          else ''Report created with name: '' @ generateReportName isoNow
                                 @ '' and ID: '' @ hd (reportIds listing))])]\<rparr>)))"
proof -
  let ?n = "generateReportName isoNow"
  let ?p = "createReportPayload ?n"
  have dispatch:
    "(if reportType cfg = ''vulnerabilities'' then generateVulnerabilitiesReport client ?p ?n
      else if reportType cfg = ''violations'' then generateViolationsReport client ?p ?n
      else js_throw (new_Error (''Unknown report type: '' @ reportType cfg))) = gen client ?p ?n"
    using assms(2) by auto
  obtain r w1 where g: "gen client ?p ?n w = (r, w1)"
    by (cases "gen client ?p ?n w")
  obtain r2 w2 where l: "listReports client w1 = (r2, w2)"
    by (cases "listReports client w1")
  have "worker cfg client isoNow w =
     js_then
       (js_try
          (js_then (gen client ?p ?n)
             (\<lambda>_. js_then (listReports client) (\<lambda>listing.
                js_then
                  (if length (reportIds listing) > 0 then
                     console_write ConsoleLog
                       [Text (''Report created with name: '' @ ?n @ '' and ID: ''
                              @ hd (reportIds listing))]
                   else
                     console_write ConsoleLog
                       [Text (''Report created with name: '' @ ?n
                              @ '' but no report ID was found.'')])
                  (\<lambda>_. js_return None))))
          (\<lambda>error. js_return (Some \<lparr>message = error_message error\<rparr>)))
       (\<lambda>returned. case returned of
          Some r \<Rightarrow> js_return r
        | None \<Rightarrow> js_return \<lparr>message = ''Vulnerabilities report '' @ ?n
                    @ '' was successfully generated.''\<rparr>) w"
    unfolding worker_def Let_def using assms(1) by (simp only: dispatch if_False)
  also have "\<dots> = (case gen client ?p ?n w of
       (Inl e, w1) \<Rightarrow> (Inr \<lparr>message = error_message e\<rparr>, w1)
     | (Inr created, w1) \<Rightarrow>
        (case listReports client w1 of
           (Inl e, w2) \<Rightarrow> (Inr \<lparr>message = error_message e\<rparr>, w2)
         | (Inr listing, w2) \<Rightarrow>
             (Inr \<lparr>message = ''Vulnerabilities report '' @ ?n
                      @ '' was successfully generated.''\<rparr>,
              w2\<lparr>console := console w2 @
                 [(ConsoleLog,
                   [Text (if reportIds listing = []
                          then ''Report created with name: '' @ ?n
                                 @ '' but no report ID was found.''
                          else ''Report created with name: '' @ ?n
                                 @ '' and ID: '' @ hd (reportIds listing))])]\<rparr>)))"
    unfolding g l js_try_def js_then_def
    by (cases r; cases r2) (simp_all add: g l js_return_def console_write_def del: append.simps)
  finally show ?thesis .
qed

lemma worker_unknown_type:
  assumes "\<not> cleanReports cfg"
    and "reportType cfg \<noteq> ''vulnerabilities''" "reportType cfg \<noteq> ''violations''"
  shows "worker cfg client isoNow w =
     (Inr \<lparr>message = ''Unknown report type: '' @ reportType cfg\<rparr>, w)"
  using assms
  by (simp add: worker_def js_try_def js_then_def js_return_def js_throw_def Let_def new_Error_def
      del: append.simps)

subsection \<open>The sample platforms, evaluated\<close>

lemma toString_500: "toString 500 = ''500''" by code_simp

lemma toString_small: "toString 3 = ''3''" "toString 404 = ''404''"
  by code_simp+

lemma sample_name: "generateReportName ''2025-02-22T10:11:12.123Z'' = ''worker_xray_report_2025-02-22''"
  by (simp add: generateReportName_def split_T_0_def)

lemma sample_ids:
  "map rd_id (filter (\<lambda>r. prefix ''worker_xray_report_'' (rd_name r)) sample_reports)
     = [''a'', ''b'', ''c'']"
  by (simp add: sample_reports_def report_def)

lemma status_client_resolves: "\<exists>res. status_client s rs h r = Inr res"
  by (simp add: status_client_def answer_def)

lemma b_fails_client_resolves: "\<exists>res. b_fails_client h r = Inr res"
  by (simp add: b_fails_client_def answer_def)

lemma creation_fails_violations:
  "fst (generateViolationsReport creation_fails_client
          (createReportPayload (generateReportName ''2025-02-22T10:11:12.123Z''))
          (generateReportName ''2025-02-22T10:11:12.123Z'') start)
   = Inl (new_Error ''Failed to generate the violations report: Failed to generate the violations report: 500'')"
  using generateViolationsReport_resolved [of creation_fails_client start
      "createReportPayload (generateReportName ''2025-02-22T10:11:12.123Z'')"
      "\<lparr>status = 500, data = \<lparr>report_id = ''R1'', reports = []\<rparr>\<rparr>"]
  by (simp add: creation_fails_client_def answer_def start_def toString_500)

lemma list_b_rejects:
  "listReports b_rejects_client start =
     (Inr \<lparr>reportIds = [''a'', ''b'', ''c''],
           reportNames = [''worker_xray_report_2025-01-03'', ''worker_xray_report_2025-01-02'',
                          ''worker_xray_report_2025-01-01'']\<rparr>,
      \<lparr>requests = [list_request],
       console = [(ConsoleLog, [Text ''All Reports:'', Reports sample_reports]),
                  (ConsoleLog, [Text ''Filtered Reports:'',
                     Reports [report ''a'' ''worker_xray_report_2025-01-03'',
                              report ''b'' ''worker_xray_report_2025-01-02'',
                              report ''c'' ''worker_xray_report_2025-01-01'']])]\<rparr>)"
  by (simp add: listReports_def js_defs b_rejects_client_def answer_def start_def list_request_def
      sample_reports_def report_def startsWith_def Let_def)

lemma delete_b_rejects:
  "delete_loop b_rejects_client [''a'', ''b'', ''c'']
     \<lparr>requests = [list_request], console = cs\<rparr> =
     (Inl (new_Error ''socket hang up''),
      \<lparr>requests = [list_request, delete_request ''a'', delete_request ''b''],
       console = cs @ [(ConsoleLog, [Text ''Successfully deleted report with ID: a''])]\<rparr>)"
  by (simp add: js_defs b_rejects_client_def answer_def delete_request_def)

section \<open>The orchestrator\<close>

text \<open>
  Claim C1. With \<open>cleanReports = true\<close>, when the listing call resolves with a status
  below 400: if no listed report carries the prefix, the result is
  \<open>No reports found to delete.\<close> and the run ends in the world the listing left, whose
  only new request is the listing request, so the Report Deleter has not run; if
  \<open>N > 0\<close> identifiers are listed, the result is
  \<open>Successfully deleted N reports.\<close> and the run ends in the world that the Report
  Deleter leaves when it is given exactly these identifiers after the listing; its
  requests are the listing request followed by DELETE requests for an initial segment of
  the identifiers, in order.
\<close>

theorem clean_mode_result:
  assumes "cleanReports cfg"
    and "client (requests w) list_request = Inr res" and "status res < 400"
    and "ids = map rd_id
           (filter (\<lambda>r. prefix ''worker_xray_report_'' (rd_name r)) (reports (data res)))"
    and "w1 = snd (listReports client w)"
  shows "requests w1 = requests w @ [list_request] \<and>
     (ids = [] \<longrightarrow>
        worker cfg client isoNow w = (Inr \<lparr>message = ''No reports found to delete.''\<rparr>, w1)) \<and>
     (ids \<noteq> [] \<longrightarrow>
        worker cfg client isoNow w =
          (Inr \<lparr>message = ''Successfully deleted '' @ toString (int (length ids))
                   @ '' reports.''\<rparr>,
           snd (deleteReports client ids w1)) \<and>
        (\<exists>n\<le>length ids. requests (snd (worker cfg client isoNow w)) =
           requests w @ list_request # map delete_request (take n ids)))"
proof -
  have w1: "requests w1 = requests w @ [list_request]"
    by (simp add: assms(5) listReports_requests)
  obtain r where l: "listReports client w = (r, w1)"
    using assms(5) by (cases "listReports client w") simp
  with listReports_resolved[of client w res] assms(2,3,4)
  have r: "r = Inr \<lparr>reportIds = ids, reportNames = map rd_name
               (filter (\<lambda>r. prefix ''worker_xray_report_'' (rd_name r)) (reports (data res)))\<rparr>"
    by simp
  have run: "worker cfg client isoNow w =
     (if ids = [] then (Inr \<lparr>message = ''No reports found to delete.''\<rparr>, w1)
      else (Inr \<lparr>message = ''Successfully deleted '' @ toString (int (length ids))
                   @ '' reports.''\<rparr>,
            snd (deleteReports client ids w1)))"
    by (simp add: worker_clean[OF assms(1)] l r del: append.simps)
  from delete_loop_requests_prefix[of ids client w1] obtain n where
    "n \<le> length ids" "requests (snd (deleteReports client ids w1)) =
       requests w @ list_request # map delete_request (take n ids)"
    by (auto simp: deleteReports_requests w1)
  then show ?thesis using w1 run by (auto simp del: append.simps)
qed

theorem clean_mode_result_witness:
  "worker clean_config (status_client 200 [report ''x'' ''other_report''])
       ''2025-02-22T10:11:12.123Z'' start
     = (Inr \<lparr>message = ''No reports found to delete.''\<rparr>,
        snd (listReports (status_client 200 [report ''x'' ''other_report'']) start)) \<and>
   requests (snd (listReports (status_client 200 [report ''x'' ''other_report'']) start))
     = [list_request] \<and>
   fst (worker clean_config (status_client 200 sample_reports) ''2025-02-22T10:11:12.123Z'' start)
     = Inr \<lparr>message = ''Successfully deleted 3 reports.''\<rparr> \<and>
   requests (snd (worker clean_config (status_client 200 sample_reports)
                    ''2025-02-22T10:11:12.123Z'' start))
     = [list_request, delete_request ''a'', delete_request ''b'', delete_request ''c'']"
proof -
  let ?none = "status_client 200 [report ''x'' ''other_report'']"
  let ?some = "status_client 200 sample_reports"
  have c: "cleanReports clean_config" by (simp add: clean_config_def)
  have n: "?none (requests start) list_request =
      Inr \<lparr>status = 200, data = \<lparr>report_id = ''R1'', reports = [report ''x'' ''other_report'']\<rparr>\<rparr>"
    by (simp add: status_client_def answer_def)
  have s: "?some (requests start) list_request =
      Inr \<lparr>status = 200, data = \<lparr>report_id = ''R1'', reports = sample_reports\<rparr>\<rparr>"
    by (simp add: status_client_def answer_def)
  have "map rd_id (filter (\<lambda>r. prefix ''worker_xray_report_'' (rd_name r))
          [report ''x'' ''other_report'']) = []"
    by (simp add: report_def)
  with c n clean_mode_result [where cfg = clean_config and client = ?none and w = start
      and res = "\<lparr>status = 200, data = \<lparr>report_id = ''R1'', reports = [report ''x'' ''other_report'']\<rparr>\<rparr>"
      and ids = "[]" and ?w1.0 = "snd (listReports ?none start)"
      and isoNow = "''2025-02-22T10:11:12.123Z''"]
  have first: "worker clean_config ?none ''2025-02-22T10:11:12.123Z'' start
     = (Inr \<lparr>message = ''No reports found to delete.''\<rparr>, snd (listReports ?none start)) \<and>
     requests (snd (listReports ?none start)) = [list_request]"
    by (simp add: start_def)
  from c s clean_mode_result [where cfg = clean_config and client = ?some and w = start
      and res = "\<lparr>status = 200, data = \<lparr>report_id = ''R1'', reports = sample_reports\<rparr>\<rparr>"
      and ids = "[''a'', ''b'', ''c'']" and ?w1.0 = "snd (listReports ?some start)"
      and isoNow = "''2025-02-22T10:11:12.123Z''"]
  have run: "worker clean_config ?some ''2025-02-22T10:11:12.123Z'' start =
          (Inr \<lparr>message = ''Successfully deleted '' @ toString (int (length [''a'', ''b'', ''c'']))
                   @ '' reports.''\<rparr>,
           snd (deleteReports ?some [''a'', ''b'', ''c''] (snd (listReports ?some start))))"
    by (simp add: sample_ids del: append.simps)
  have sent: "requests (snd (deleteReports ?some [''a'', ''b'', ''c''] (snd (listReports ?some start))))
     = [list_request, delete_request ''a'', delete_request ''b'', delete_request ''c'']"
    using delete_loop_all_resolved[of "[''a'', ''b'', ''c'']" ?some "snd (listReports ?some start)"]
    by (simp add: status_client_resolves deleteReports_requests listReports_requests start_def)
  show ?thesis
    using first by (simp add: run sent toString_small)
qed

text \<open>
  Claim C2. With \<open>cleanReports = false\<close>, when the creation call and the listing call
  both resolve with a status below 400, the message is
  \<open>Vulnerabilities report <name> was successfully generated.\<close> with the name computed
  by \<open>generateReportName\<close>, for the variant \<open>vulnerabilities\<close> as for the variant
  \<open>violations\<close>.
\<close>

theorem successful_generation_message:
  assumes "\<not> cleanReports cfg"
    and "reportType cfg = ''vulnerabilities'' \<and>
           rq = vulnerabilities_request (createReportPayload (generateReportName isoNow)) \<or>
         reportType cfg = ''violations'' \<and>
           rq = violations_request (createReportPayload (generateReportName isoNow))"
    and "client (requests w) rq = Inr created" and "status created < 400"
    and "client (requests w @ [rq]) list_request = Inr listed" and "status listed < 400"
  shows "fst (worker cfg client isoNow w) =
     Inr \<lparr>message = ''Vulnerabilities report '' @ generateReportName isoNow
            @ '' was successfully generated.''\<rparr>"
proof -
  let ?n = "generateReportName isoNow"
  let ?p = "createReportPayload ?n"
  from assms(2) obtain gen where gen:
    "reportType cfg = ''vulnerabilities'' \<and> gen = generateVulnerabilitiesReport \<or>
     reportType cfg = ''violations'' \<and> gen = generateViolationsReport"
    and fst_gen: "fst (gen client ?p ?n w) = Inr (report_id (data created))"
    and snd_gen: "requests (snd (gen client ?p ?n w)) = requests w @ [rq]"
  proof (elim disjE conjE)
    assume a: "reportType cfg = ''vulnerabilities''" "rq = vulnerabilities_request ?p"
    show ?thesis
      using a assms(3,4) that[of generateVulnerabilitiesReport]
      by (simp add: generateVulnerabilitiesReport_resolved generateVulnerabilitiesReport_requests)
  next
    assume a: "reportType cfg = ''violations''" "rq = violations_request ?p"
    show ?thesis
      using a assms(3,4) that[of generateViolationsReport]
      by (simp add: generateViolationsReport_resolved generateViolationsReport_requests)
  qed
  obtain r w1 where g: "gen client ?p ?n w = (r, w1)" by (cases "gen client ?p ?n w")
  with fst_gen snd_gen have r: "r = Inr (report_id (data created))"
    and w1: "requests w1 = requests w @ [rq]" by simp_all
  from assms(5) have "client (requests w1) list_request = Inr listed" by (simp add: w1)
  with listReports_resolved[of client w1 listed] assms(6)
  obtain listing where "fst (listReports client w1) = Inr listing" by simp
  then obtain w2 where l: "listReports client w1 = (Inr listing, w2)"
    by (cases "listReports client w1") simp
  show ?thesis
    by (simp add: worker_generate[OF assms(1) gen] g r l del: append.simps)
qed

theorem successful_generation_message_witness:
  "fst (worker source_config (status_client 200 sample_reports) ''2025-02-22T10:11:12.123Z'' start)
     = Inr \<lparr>message = ''Vulnerabilities report worker_xray_report_2025-02-22 was successfully generated.''\<rparr> \<and>
   fst (worker vulnerabilities_config (status_client 200 sample_reports) ''2025-02-22T10:11:12.123Z'' start)
     = Inr \<lparr>message = ''Vulnerabilities report worker_xray_report_2025-02-22 was successfully generated.''\<rparr>"
  using successful_generation_message [of source_config
      "violations_request (createReportPayload (generateReportName ''2025-02-22T10:11:12.123Z''))"
      "''2025-02-22T10:11:12.123Z''" "status_client 200 sample_reports" start
      "\<lparr>status = 200, data = \<lparr>report_id = ''R1'', reports = sample_reports\<rparr>\<rparr>"
      "\<lparr>status = 200, data = \<lparr>report_id = ''R1'', reports = sample_reports\<rparr>\<rparr>"]
    successful_generation_message [of vulnerabilities_config
      "vulnerabilities_request (createReportPayload (generateReportName ''2025-02-22T10:11:12.123Z''))"
      "''2025-02-22T10:11:12.123Z''" "status_client 200 sample_reports" start
      "\<lparr>status = 200, data = \<lparr>report_id = ''R1'', reports = sample_reports\<rparr>\<rparr>"
      "\<lparr>status = 200, data = \<lparr>report_id = ''R1'', reports = sample_reports\<rparr>\<rparr>"]
  by (simp add: source_config_def vulnerabilities_config_def status_client_def answer_def
      sample_name)

section \<open>The Report Requester\<close>

text \<open>
  Claim C3. When the creation endpoint answers with a status below 400, the Report
  Requester returns the \<open>report_id\<close> of the response body as it is; when the status is
  400 or more it fails with an error whose message contains the status code. Both hold
  for the vulnerabilities and for the violations variant.
\<close>

theorem report_requester_result:
  "(client (requests w) (vulnerabilities_request payload) = Inr res \<longrightarrow>
      (status res < 400 \<longrightarrow>
         fst (generateVulnerabilitiesReport client payload reportName w)
           = Inr (report_id (data res))) \<and>
      (400 \<le> status res \<longrightarrow>
         (\<exists>e. fst (generateVulnerabilitiesReport client payload reportName w) = Inl e
            \<and> sublist (toString (status res)) (error_message e)))) \<and>
   (client (requests w) (violations_request payload) = Inr res \<longrightarrow>
      (status res < 400 \<longrightarrow>
         fst (generateViolationsReport client payload reportName w)
           = Inr (report_id (data res))) \<and>
      (400 \<le> status res \<longrightarrow>
         (\<exists>e. fst (generateViolationsReport client payload reportName w) = Inl e
            \<and> sublist (toString (status res)) (error_message e))))"
proof -
  have inc: "sublist s (p @ q @ s)" for s p q :: string
    using sublist_appendI[of s "p @ q" "[]"] by simp
  show ?thesis
    by (auto simp: generateVulnerabilitiesReport_resolved generateViolationsReport_resolved
        new_Error_def inc simp del: append.simps)
qed

theorem report_requester_result_witness:
  "fst (generateVulnerabilitiesReport (status_client 201 []) (createReportPayload ''n'') ''n'' start)
     = Inr ''R1'' \<and>
   fst (generateViolationsReport (status_client 201 []) (createReportPayload ''n'') ''n'' start)
     = Inr ''R1'' \<and>
   (\<exists>e. fst (generateVulnerabilitiesReport (status_client 500 []) (createReportPayload ''n'') ''n'' start)
          = Inl e \<and> sublist ''500'' (error_message e)) \<and>
   (\<exists>e. fst (generateViolationsReport (status_client 500 []) (createReportPayload ''n'') ''n'' start)
          = Inl e \<and> sublist ''500'' (error_message e))"
  using report_requester_result [of "status_client 201 []" start "createReportPayload ''n''"
      "\<lparr>status = 201, data = \<lparr>report_id = ''R1'', reports = []\<rparr>\<rparr>" "''n''"]
    report_requester_result [of "status_client 500 []" start "createReportPayload ''n''"
      "\<lparr>status = 500, data = \<lparr>report_id = ''R1'', reports = []\<rparr>\<rparr>" "''n''"]
  by (simp add: status_client_def answer_def toString_500)

section \<open>A failed creation\<close>

text \<open>
  Claim C4. With \<open>cleanReports = false\<close>, when the Report Requester fails, the orchestrator
  returns the message of that failure and the only request of the run is the creation
  request: the listing call is not made. When the failure comes from a response (its
  status is then 400 or more) the message is the fixed text of the variant, twice,
  followed by the status, so it contains the text followed by the status; when the
  client rejected, it is the text followed by the message of the rejection.
\<close>

theorem creation_failure_message:
  assumes "\<not> cleanReports cfg"
    and "reportType cfg = ''vulnerabilities'' \<and> gen = generateVulnerabilitiesReport \<and>
           rq = vulnerabilities_request (createReportPayload (generateReportName isoNow)) \<and>
           pfx = ''Failed to generate the vulnerabilities report: '' \<or>
         reportType cfg = ''violations'' \<and> gen = generateViolationsReport \<and>
           rq = violations_request (createReportPayload (generateReportName isoNow)) \<and>
           pfx = ''Failed to generate the violations report: ''"
    and "fst (gen client (createReportPayload (generateReportName isoNow))
                (generateReportName isoNow) w) = Inl err"
  shows "fst (worker cfg client isoNow w) = Inr \<lparr>message = error_message err\<rparr> \<and>
     requests (snd (worker cfg client isoNow w)) = requests w @ [rq] \<and>
     (\<forall>res. client (requests w) rq = Inr res \<longrightarrow>
        400 \<le> status res \<and> error_message err = pfx @ pfx @ toString (status res) \<and>
        sublist (pfx @ toString (status res)) (error_message err)) \<and>
     (\<forall>e. client (requests w) rq = Inl e \<longrightarrow> error_message err = pfx @ error_message e)"
proof -
  let ?n = "generateReportName isoNow"
  let ?p = "createReportPayload ?n"
  from assms(2) have gen:
    "reportType cfg = ''vulnerabilities'' \<and> gen = generateVulnerabilitiesReport \<or>
     reportType cfg = ''violations'' \<and> gen = generateViolationsReport" by blast
  obtain r w1 where g: "gen client ?p ?n w = (r, w1)" by (cases "gen client ?p ?n w")
  with assms(3) have r: "r = Inl err" by simp
  have w1: "requests w1 = requests w @ [rq]"
    using assms(2) g generateVulnerabilitiesReport_requests[of client ?p ?n w]
      generateViolationsReport_requests[of client ?p ?n w] by auto
  have run: "worker cfg client isoNow w = (Inr \<lparr>message = error_message err\<rparr>, w1)"
    unfolding worker_generate[OF assms(1) gen] g r by simp
  have inc: "sublist (p @ s) (p @ p @ s)" for p s :: string
    using sublist_appendI[of "p @ s" p "[]"] by simp
  have resolved: "400 \<le> status res \<and> error_message err = pfx @ pfx @ toString (status res)"
    if "client (requests w) rq = Inr res" for res
    using assms(2,3) that
      generateVulnerabilitiesReport_resolved[of client w ?p res ?n]
      generateViolationsReport_resolved[of client w ?p res ?n]
    by (auto simp: new_Error_def split: if_splits simp del: append.simps)
  have rejected: "error_message err = pfx @ error_message e"
    if "client (requests w) rq = Inl e" for e
    using assms(2,3) that
      generateVulnerabilitiesReport_rejected[of client w ?p e ?n]
      generateViolationsReport_rejected[of client w ?p e ?n]
    by (auto simp: new_Error_def simp del: append.simps)
  show ?thesis
    using resolved rejected inc[of pfx] by (simp add: run w1 del: append.simps)
qed

theorem creation_failure_message_witness:
  "creation_fails_client [] (violations_request (createReportPayload ''worker_xray_report_2025-02-22''))
     = Inr \<lparr>status = 500, data = \<lparr>report_id = ''R1'', reports = []\<rparr>\<rparr> \<and>
   fst (worker source_config creation_fails_client ''2025-02-22T10:11:12.123Z'' start)
     = Inr \<lparr>message = ''Failed to generate the violations report: Failed to generate the violations report: 500''\<rparr> \<and>
   requests (snd (worker source_config creation_fails_client ''2025-02-22T10:11:12.123Z'' start))
     = [violations_request (createReportPayload ''worker_xray_report_2025-02-22'')] \<and>
   sublist ''Failed to generate the violations report: 500''
     ''Failed to generate the violations report: Failed to generate the violations report: 500''"
proof -
  let ?rq = "violations_request (createReportPayload (generateReportName ''2025-02-22T10:11:12.123Z''))"
  let ?res = "\<lparr>status = 500, data = \<lparr>report_id = ''R1'', reports = []\<rparr>\<rparr>"
  let ?msg = "''Failed to generate the violations report: Failed to generate the violations report: 500''"
  have c: "creation_fails_client (requests start) ?rq = Inr ?res"
    by (simp add: creation_fails_client_def answer_def start_def)
  have h1: "\<not> cleanReports source_config"
    by (simp add: source_config_def)
  have h2: "reportType source_config = ''vulnerabilities'' \<and>
       generateViolationsReport = generateVulnerabilitiesReport \<and>
       ?rq = vulnerabilities_request (createReportPayload (generateReportName ''2025-02-22T10:11:12.123Z'')) \<and>
       ''Failed to generate the violations report: '' = ''Failed to generate the vulnerabilities report: '' \<or>
     reportType source_config = ''violations'' \<and>
       generateViolationsReport = generateViolationsReport \<and>
       ?rq = ?rq \<and>
       ''Failed to generate the violations report: '' = ''Failed to generate the violations report: ''"
    by (simp add: source_config_def)
  note run = creation_failure_message [of source_config generateViolationsReport ?rq
      "''2025-02-22T10:11:12.123Z''" "''Failed to generate the violations report: ''"
      creation_fails_client start "new_Error ?msg", OF h1 h2 creation_fails_violations]
  from run have a: "fst (worker source_config creation_fails_client ''2025-02-22T10:11:12.123Z'' start)
     = Inr \<lparr>message = ?msg\<rparr>"
    by (simp add: new_Error_def)
  from run have b: "requests (snd (worker source_config creation_fails_client ''2025-02-22T10:11:12.123Z'' start))
     = requests start @ [?rq]"
    by (rule conjunct1[OF conjunct2])
  from run have "\<forall>res. creation_fails_client (requests start) ?rq = Inr res \<longrightarrow>
        400 \<le> status res \<and>
        error_message (new_Error ?msg) = ''Failed to generate the violations report: '' @
            ''Failed to generate the violations report: '' @ toString (status res) \<and>
        sublist (''Failed to generate the violations report: '' @ toString (status res))
          (error_message (new_Error ?msg))"
    by (rule conjunct1[OF conjunct2[OF conjunct2]])
  from this[rule_format, OF c]
  have d: "sublist (''Failed to generate the violations report: '' @ toString 500) ?msg"
    by (simp add: new_Error_def toString_500)
  show ?thesis
    using a b c d by (simp add: start_def sample_name toString_500)
qed

section \<open>The Report Lister\<close>

text \<open>
  Claim C5. When the listing call resolves with a status below 400 and the report list
  \<open>L\<close>, the Report Lister returns the identifiers and the names of exactly the reports
  of \<open>L\<close> whose name starts with \<open>worker_xray_report_\<close>, both in the order of
  \<open>L\<close> and taken from the same reports, so that the two sequences are aligned. When
  no report matches, also when \<open>L\<close> is empty, both sequences are empty and nothing is
  thrown.
\<close>

theorem report_lister_result:
  "client (requests w) list_request = Inr res \<and> status res < 400 \<longrightarrow>
     fst (listReports client w) =
       Inr \<lparr>reportIds = map rd_id
               (filter (\<lambda>r. prefix ''worker_xray_report_'' (rd_name r)) (reports (data res))),
            reportNames = map rd_name
               (filter (\<lambda>r. prefix ''worker_xray_report_'' (rd_name r)) (reports (data res)))\<rparr>"
  by (simp add: listReports_resolved)

theorem report_lister_result_witness:
  "fst (listReports (status_client 200 sample_reports) start) =
     Inr \<lparr>reportIds = [''a'', ''b'', ''c''],
          reportNames = [''worker_xray_report_2025-01-03'', ''worker_xray_report_2025-01-02'',
                         ''worker_xray_report_2025-01-01'']\<rparr> \<and>
   fst (listReports (status_client 200 []) start) = Inr \<lparr>reportIds = [], reportNames = []\<rparr> \<and>
   fst (listReports (status_client 200 [report ''x'' ''other_report'']) start)
     = Inr \<lparr>reportIds = [], reportNames = []\<rparr>"
  using report_lister_result [of "status_client 200 sample_reports" start
      "\<lparr>status = 200, data = \<lparr>report_id = ''R1'', reports = sample_reports\<rparr>\<rparr>"]
    report_lister_result [of "status_client 200 []" start
      "\<lparr>status = 200, data = \<lparr>report_id = ''R1'', reports = []\<rparr>\<rparr>"]
    report_lister_result [of "status_client 200 [report ''x'' ''other_report'']" start
      "\<lparr>status = 200, data = \<lparr>report_id = ''R1'', reports = [report ''x'' ''other_report'']\<rparr>\<rparr>"]
  by (simp add: status_client_def answer_def sample_reports_def report_def)

section \<open>The Report Deleter\<close>

text \<open>
  Claim C6. The Report Deleter never throws. When each of its calls resolves, whatever
  the status of the response, it sends one DELETE request per identifier, in the order of
  the identifiers: a status of 400 or more for one identifier does not stop the loop.
\<close>

theorem report_deleter_best_effort:
  "fst (deleteReports client ids w) = Inr () \<and>
   ((\<forall>k<length ids. \<exists>res.
       client (requests w @ map delete_request (take k ids)) (delete_request (ids ! k)) = Inr res)
    \<longrightarrow> requests (snd (deleteReports client ids w)) = requests w @ map delete_request ids)"
  using delete_loop_all_resolved[of ids client w]
  by (simp add: deleteReports_returns deleteReports_requests)

theorem report_deleter_best_effort_witness:
  "b_fails_client [delete_request ''a''] (delete_request ''b'')
     = Inr \<lparr>status = 404, data = \<lparr>report_id = ''R1'', reports = []\<rparr>\<rparr> \<and>
   fst (deleteReports b_fails_client [''a'', ''b'', ''c''] start) = Inr () \<and>
   requests (snd (deleteReports b_fails_client [''a'', ''b'', ''c''] start)) =
     [delete_request ''a'', delete_request ''b'', delete_request ''c''] \<and>
   console (snd (deleteReports b_fails_client [''a'', ''b'', ''c''] start)) =
     [(ConsoleLog, [Text ''Successfully deleted report with ID: a'']),
      (ConsoleWarn, [Text ''Failed to delete report with ID: b, status: 404'']),
      (ConsoleLog, [Text ''Successfully deleted report with ID: c''])]"
proof -
  have "console (snd (deleteReports b_fails_client [''a'', ''b'', ''c''] start)) =
     [(ConsoleLog, [Text ''Successfully deleted report with ID: a'']),
      (ConsoleWarn, [Text ''Failed to delete report with ID: b, status: 404'']),
      (ConsoleLog, [Text ''Successfully deleted report with ID: c''])]"
    by (simp add: deleteReports_def js_defs b_fails_client_def answer_def delete_request_def
        start_def toString_small)
  with report_deleter_best_effort [of b_fails_client "[''a'', ''b'', ''c'']" start]
  show ?thesis
    by (simp add: b_fails_client_resolves start_def)
       (simp add: b_fails_client_def answer_def delete_request_def)
qed

text \<open>
  Claim C7 says that when a call of the client rejects inside the delete loop, the
  failure shows in the message that the orchestrator returns. It does not: the
  \<^verbatim>\<open>catch\<close> of \<^verbatim>\<open>deleteReports\<close> writes the error to the console and
  returns. On the sample platform where deleting \<open>b\<close> rejects, the loop throws and the
  orchestrator still reports three deleted reports.
\<close>

theorem swallowed_rejection_counterexample:
  "fst (delete_loop b_rejects_client [''a'', ''b'', ''c''] (snd (listReports b_rejects_client start)))
     = Inl (new_Error ''socket hang up'') \<and>
   fst (worker clean_config b_rejects_client ''2025-02-22T10:11:12.123Z'' start)
     = Inr \<lparr>message = ''Successfully deleted 3 reports.''\<rparr>"
  by (simp add: worker_clean clean_config_def list_b_rejects delete_b_rejects deleteReports_def
      js_try_def console_write_def toString_small del: delete_loop.simps)

text \<open>
  Claim C7, as amended. With \<open>cleanReports = true\<close> and a listing that resolves with the
  identifiers \<open>ids\<close>: when the calls for the first \<open>k\<close> identifiers resolve and
  the call for the next one rejects with the error \<open>e\<close>, the remaining identifiers are
  not attempted, the last line on the console is the error line
  \<open>Failed to delete reports: \<close> followed by the message of \<open>e\<close>, and the
  orchestrator returns \<open>Successfully deleted N reports.\<close> where \<open>N\<close> is the number of
  listed identifiers.
\<close>

theorem delete_rejection_is_swallowed:
  assumes "cleanReports cfg"
    and "client (requests w) list_request = Inr res" and "status res < 400"
    and "ids = map rd_id
           (filter (\<lambda>r. prefix ''worker_xray_report_'' (rd_name r)) (reports (data res)))"
    and "k < length ids"
    and "\<forall>j<k. \<exists>r. client (requests w @ list_request # map delete_request (take j ids))
                        (delete_request (ids ! j)) = Inr r"
    and "client (requests w @ list_request # map delete_request (take k ids))
           (delete_request (ids ! k)) = Inl e"
  shows "requests (snd (worker cfg client isoNow w)) =
       requests w @ list_request # map delete_request (take (Suc k) ids) \<and>
     last (console (snd (worker cfg client isoNow w))) =
       (ConsoleError, [Text (''Failed to delete reports: '' @ error_message e)]) \<and>
     fst (worker cfg client isoNow w) =
       Inr \<lparr>message = ''Successfully deleted '' @ toString (int (length ids)) @ '' reports.''\<rparr>"
proof -
  define w1 where "w1 = snd (listReports client w)"
  have w1: "requests w1 = requests w @ [list_request]"
    by (simp add: w1_def listReports_requests)
  obtain r where l: "listReports client w = (r, w1)"
    using w1_def by (cases "listReports client w") simp
  with listReports_resolved[of client w res] assms(2,3,4)
  have r: "r = Inr \<lparr>reportIds = ids, reportNames = map rd_name
               (filter (\<lambda>r. prefix ''worker_xray_report_'' (rd_name r)) (reports (data res)))\<rparr>"
    by simp
  from assms(5) have ne: "ids \<noteq> []" by auto
  have run: "worker cfg client isoNow w =
      (Inr \<lparr>message = ''Successfully deleted '' @ toString (int (length ids))
                   @ '' reports.''\<rparr>,
            snd (deleteReports client ids w1))"
    using ne by (simp add: worker_clean[OF assms(1)] l r del: append.simps)
  have b: "\<forall>j<k. \<exists>r. client (requests w1 @ map delete_request (take j ids))
                        (delete_request (ids ! j)) = Inr r"
    using assms(6) by (simp add: w1)
  have c: "client (requests w1 @ map delete_request (take k ids)) (delete_request (ids ! k)) = Inl e"
    using assms(7) by (simp add: w1)
  from delete_loop_rejected_at[OF assms(5) b c]
  have thrown: "fst (delete_loop client ids w1) = Inl e"
    and sent: "requests (snd (delete_loop client ids w1)) =
       requests w1 @ map delete_request (take (Suc k) ids)" by blast+
  show ?thesis
    by (simp add: run deleteReports_requests sent w1 deleteReports_rejected[OF thrown]
        del: append.simps)
qed

theorem delete_rejection_is_swallowed_witness:
  "b_rejects_client [list_request, delete_request ''a''] (delete_request ''b'')
     = Inl (new_Error ''socket hang up'') \<and>
   requests (snd (worker clean_config b_rejects_client ''2025-02-22T10:11:12.123Z'' start))
     = [list_request, delete_request ''a'', delete_request ''b''] \<and>
   last (console (snd (worker clean_config b_rejects_client ''2025-02-22T10:11:12.123Z'' start)))
     = (ConsoleError, [Text ''Failed to delete reports: socket hang up'']) \<and>
   fst (worker clean_config b_rejects_client ''2025-02-22T10:11:12.123Z'' start)
     = Inr \<lparr>message = ''Successfully deleted 3 reports.''\<rparr>"
proof -
  have c: "cleanReports clean_config" by (simp add: clean_config_def)
  have l: "b_rejects_client (requests start) list_request =
      Inr \<lparr>status = 200, data = \<lparr>report_id = ''R1'', reports = sample_reports\<rparr>\<rparr>"
    by (simp add: b_rejects_client_def answer_def list_request_def)
  have s: "(400::int) > status \<lparr>status = 200, data = \<lparr>report_id = ''R1'', reports = sample_reports\<rparr>\<rparr>"
    by simp
  have i: "[''a'', ''b'', ''c''] = map rd_id (filter (\<lambda>r. prefix ''worker_xray_report_'' (rd_name r))
      (reports (data \<lparr>status = 200, data = \<lparr>report_id = ''R1'', reports = sample_reports\<rparr>\<rparr>)))"
    by (simp add: sample_ids)
  have k: "(1::nat) < length [''a'', ''b'', ''c'']" by simp
  have before: "\<forall>j<1. \<exists>r. b_rejects_client
       (requests start @ list_request # map delete_request (take j [''a'', ''b'', ''c'']))
       (delete_request ([''a'', ''b'', ''c''] ! j)) = Inr r"
    by (simp add: b_rejects_client_def answer_def delete_request_def)
  have rejects: "b_rejects_client
       (requests start @ list_request # map delete_request (take 1 [''a'', ''b'', ''c'']))
       (delete_request ([''a'', ''b'', ''c''] ! 1)) = Inl (new_Error ''socket hang up'')"
    by (simp add: b_rejects_client_def delete_request_def)
  from delete_rejection_is_swallowed [where cfg = clean_config and client = b_rejects_client
      and w = start and ids = "[''a'', ''b'', ''c'']" and k = 1
      and e = "new_Error ''socket hang up''" and isoNow = "''2025-02-22T10:11:12.123Z''"
      and res = "\<lparr>status = 200, data = \<lparr>report_id = ''R1'', reports = sample_reports\<rparr>\<rparr>",
      OF c l s i k before rejects]
    rejects
  show ?thesis
    by (simp add: start_def new_Error_def toString_small)
qed

section \<open>The entry point never throws\<close>

text \<open>
  Claim C8. For every configuration, every client (each call resolving or rejecting as it
  likes), every clock and every starting world, the entry point returns a
  \<open>ScheduledEventResponse\<close>: no error of the creation, the listing or the deletion
  leaves it.
\<close>

theorem worker_always_returns:
  "\<exists>r. fst (worker cfg client isoNow w) = Inr r"
proof (cases "cleanReports cfg")
  case True
  then show ?thesis
    by (auto simp: worker_clean split: prod.splits sum.splits)
next
  case False
  consider "reportType cfg = ''vulnerabilities''" | "reportType cfg = ''violations''"
    | "reportType cfg \<noteq> ''vulnerabilities''" "reportType cfg \<noteq> ''violations''" by blast
  then show ?thesis
  proof cases
    case 1
    with False show ?thesis
      by (auto simp: worker_generate[where gen = generateVulnerabilitiesReport]
          split: prod.splits sum.splits)
  next
    case 2
    with False show ?thesis
      by (auto simp: worker_generate[where gen = generateViolationsReport]
          split: prod.splits sum.splits)
  next
    case 3
    with False show ?thesis by (simp add: worker_unknown_type)
  qed
qed

theorem worker_always_returns_witness:
  "\<exists>r. fst (worker \<lparr>reportType = ''licenses'', cleanReports = False\<rparr> b_rejects_client
            ''2025-02-22T10:11:12.123Z'' start) = Inr r"
  using worker_always_returns [of "\<lparr>reportType = ''licenses'', cleanReports = False\<rparr>"
      b_rejects_client "''2025-02-22T10:11:12.123Z''" start] .

section \<open>The listing request\<close>

text \<open>
  Claim C9. The listing request is a POST to
  \<open>/xray/api/v1/reports?direction=desc&page_num=1&num_of_rows=10&order_by=start_time\<close>,
  as the claim says. It is not without a body: the object
  \<^verbatim>\<open>{ headers: { 'Content-Type': 'application/json' } }\<close> is the argument that
  follows the endpoint, the place where \<^verbatim>\<open>generateVulnerabilitiesReport\<close> puts
  the payload, and no argument follows it. The two requests, as sent on a sample
  platform:
\<close>

theorem list_request_carries_headers_as_data:
  "requests (snd (listReports (status_client 200 []) start)) =
     [\<lparr>http_method = POST,
       endpoint = ''/xray/api/v1/reports?direction=desc&page_num=1&num_of_rows=10&order_by=start_time'',
       arguments = [JObj [(''headers'', JObj [(''Content-Type'', JStr ''application/json'')])]]\<rparr>] \<and>
   requests (snd (generateVulnerabilitiesReport (status_client 200 []) [(''name'', JStr ''n'')] ''n'' start)) =
     [\<lparr>http_method = POST,
       endpoint = ''/xray/api/v1/reports/vulnerabilities'',
       arguments = [JObj [(''name'', JStr ''n'')],
                    JObj [(''headers'', JObj [(''Content-Type'', JStr ''application/json'')])]]\<rparr>]"
  by (simp add: listReports_requests generateVulnerabilitiesReport_requests start_def
      list_request_def vulnerabilities_request_def content_type_headers_def)

section \<open>Errors wrapped twice\<close>

text \<open>
  Claim C10. When the client resolves with a status of 400 or more, the error thrown in
  the \<^verbatim>\<open>else\<close> branch is caught by the \<^verbatim>\<open>catch\<close> of the same function and
  wrapped once more: the message carries the fixed prefix twice, followed by the status.
  This is so for both variants of the Report Requester and for the Report Lister.
\<close>

theorem double_wrapped_message:
  "(client (requests w) (vulnerabilities_request payload) = Inr res \<and> 400 \<le> status res \<longrightarrow>
      fst (generateVulnerabilitiesReport client payload reportName w) =
        Inl (new_Error (''Failed to generate the vulnerabilities report: '' @
                ''Failed to generate the vulnerabilities report: '' @ toString (status res)))) \<and>
   (client (requests w) (violations_request payload) = Inr res \<and> 400 \<le> status res \<longrightarrow>
      fst (generateViolationsReport client payload reportName w) =
        Inl (new_Error (''Failed to generate the violations report: '' @
                ''Failed to generate the violations report: '' @ toString (status res)))) \<and>
   (client (requests w) list_request = Inr res \<and> 400 \<le> status res \<longrightarrow>
      fst (listReports client w) =
        Inl (new_Error (''Failed to retrieve the reports: '' @
                ''Failed to retrieve the reports: '' @ toString (status res))))"
  by (simp add: generateVulnerabilitiesReport_resolved generateViolationsReport_resolved
      listReports_resolved del: append.simps)

theorem double_wrapped_message_witness:
  "fst (generateVulnerabilitiesReport (status_client 500 []) (createReportPayload ''n'') ''n'' start)
     = Inl (new_Error
        ''Failed to generate the vulnerabilities report: Failed to generate the vulnerabilities report: 500'') \<and>
   fst (generateViolationsReport (status_client 500 []) (createReportPayload ''n'') ''n'' start)
     = Inl (new_Error
        ''Failed to generate the violations report: Failed to generate the violations report: 500'') \<and>
   fst (listReports (status_client 500 []) start)
     = Inl (new_Error ''Failed to retrieve the reports: Failed to retrieve the reports: 500'')"
  using double_wrapped_message [of "status_client 500 []" start "createReportPayload ''n''"
      "\<lparr>status = 500, data = \<lparr>report_id = ''R1'', reports = []\<rparr>\<rparr>" "''n''"]
  by (simp add: status_client_def answer_def toString_500)

end
